theory Spec2Isabelle
  imports Main "HOL-Library.AList" "HOL-Library.Char_ord" "HOL-Library.List_Lexorder"
begin

text \<open>
  The model follows the later of the two revisions the source files hold: the writer
  \<^verbatim>\<open>atomicFile\<close> with \<^verbatim>\<open>create\<close>, \<^verbatim>\<open>cancel\<close> and \<^verbatim>\<open>commit\<close> (persist.go), and the
  jar's \<^verbatim>\<open>Save\<close> with its loop, \<^verbatim>\<open>Load\<close>, \<^verbatim>\<open>mergeEntries\<close>, \<^verbatim>\<open>loadJSON\<close>, \<^verbatim>\<open>encodeJSON\<close>
  and \<^verbatim>\<open>decodeJSON\<close>. The operating system and the JSON codec are outside the repository;
  they are modelled by what the code relies on.
\<close>

section \<open>Errors\<close>

text \<open>
  The error values that flow through the persistence code. \<open>ErrAtomicFileRetry\<close> is the
  sentinel \<^verbatim>\<open>erratomicFileRetry\<close>; \<open>ErrNotLoaded\<close> is the error of \<^verbatim>\<open>Save\<close> on a jar
  without a file name; \<open>ErrNotExist\<close> is what \<^verbatim>\<open>os.IsNotExist\<close> recognises; \<open>ErrEOF\<close> and
  \<open>ErrSyntax\<close> are the decoder's errors; \<open>ErrOS\<close> carries any other condition the
  operating system reports.
\<close>

datatype errno = EIO | EACCES | ENOSPC | EROFS

datatype error =
    ErrAtomicFileRetry
  | ErrNotLoaded
  | ErrNotExist
  | ErrExist
  | ErrClosed
  | ErrEOF
  | ErrSyntax
  | ErrOS errno

definition os_IsNotExist :: "error option \<Rightarrow> bool" where
  "os_IsNotExist err = (err = Some ErrNotExist)"

section \<open>Go maps and the document\<close>

text \<open>
  A Go map is an association list read through \<open>map_of\<close> and written through
  \<open>AList.update\<close>; \<^verbatim>\<open>range\<close> visits the keys of the list. The cookie record \<^verbatim>\<open>entry\<close>
  is declared outside the files at hand and is never inspected by them: it is the type
  parameter \<open>'e\<close>. Inner maps are always allocated, as the jar allocates them.
\<close>

type_synonym ('k, 'v) gomap = "('k \<times> 'v) list"
type_synonym 'e inner = "(string, 'e) gomap"
type_synonym 'e document = "(string, 'e inner) gomap"

definition entry_at :: "'e document \<Rightarrow> string \<Rightarrow> string \<Rightarrow> 'e option" where
  "entry_at d k0 k1 = (case map_of d k0 of None \<Rightarrow> None | Some i \<Rightarrow> map_of i k1)"

definition doc_map :: "'e document \<Rightarrow> string \<Rightarrow> (string \<Rightarrow> 'e option) option" where
  "doc_map d k0 = map_option map_of (map_of d k0)"

text \<open>
  What a reader finds in a file: nothing at all (a zero-length stream), bytes that are not
  JSON, the literal \<^verbatim>\<open>null\<close>, or an object of objects of records, with its members in
  file order. JSON of another shape, a member \<^verbatim>\<open>null\<close> included, is not modelled.
\<close>

datatype 'e content =
    NoValue
  | Malformed
  | JSONNull
  | JSONObject "(string \<times> (string \<times> 'e) list) list"

section \<open>The file system\<close>

text \<open>
  The world holds the files (content and modification time per path), the wall clock, a
  script and a trace. Every system call consumes one step of the script: the step lets
  time pass, lets a concurrent writer replace one file, may inject a failure of the call,
  and supplies the random number of a temporary name. When the script is used up, the
  world is quiet. The trace records every call made with its outcome.
\<close>

record 'e env_step =
  fault :: "errno option"
  elapse :: nat
  writer :: "(string \<times> 'e content) option"
  rnd :: nat

datatype call =
    TempFile string
  | Write string
  | Sync string
  | Close string
  | Stat string
  | Rename string string
  | Remove string
  | Open string
  | Read string

type_synonym event = "call \<times> error option"

record 'e world =
  files :: "string \<Rightarrow> ('e content \<times> nat) option"
  clock :: nat
  script :: "'e env_step list"
  trace :: "event list"

record os_File =
  fname :: string
  closed :: bool

definition quiet :: "'e env_step" where
  "quiet = \<lparr>fault = None, elapse = 0, writer = None, rnd = 0\<rparr>"

definition enter :: "'e world \<Rightarrow> 'e env_step \<times> 'e world" where
  "enter w =
     (case script w of
        [] \<Rightarrow> (quiet, w)
      | s # ss \<Rightarrow>
          (s, w\<lparr>files := (case writer s of
                            None \<Rightarrow> files w
                          | Some (p, c) \<Rightarrow> (files w)(p \<mapsto> (c, clock w + elapse s))),
                clock := clock w + elapse s,
                script := ss\<rparr>))"

definition log :: "call \<Rightarrow> error option \<Rightarrow> 'e world \<Rightarrow> 'e world" where
  "log c r w = w\<lparr>trace := trace w @ [(c, r)]\<rparr>"

definition os_err :: "'e env_step \<Rightarrow> error option" where
  "os_err s = map_option ErrOS (fault s)"

text \<open>
  \<^verbatim>\<open>ioutil.TempFile(dir, pattern)\<close> creates, exclusively, an empty file named by the
  directory, the pattern and nine decimal digits of a random number; with an empty
  directory it uses the default directory for temporary files, here \<^verbatim>\<open>/tmp\<close>. One draw
  is modelled: a name that is taken is the error. Paths are not normalised.
\<close>

definition nextSuffix :: "nat \<Rightarrow> string" where
  "nextSuffix r =
     map (\<lambda>i. ''0123456789'' ! (r div 10 ^ i mod 10)) [8, 7, 6, 5, 4, 3, 2, 1, 0]"

definition os_TempDir :: string where
  "os_TempDir = ''/tmp''"

definition temp_path :: "string \<Rightarrow> string \<Rightarrow> nat \<Rightarrow> string" where
  "temp_path dir pattern r =
     (if dir = [] then os_TempDir @ ''/'' else dir) @ pattern @ nextSuffix r"

definition os_TempFile :: "string \<Rightarrow> string \<Rightarrow> 'e world \<Rightarrow> (error + os_File) \<times> 'e world" where
  "os_TempFile dir pattern w =
     (case enter w of (s, w1) \<Rightarrow>
        let p = temp_path dir pattern (rnd s) in
        (case fault s of
           Some e \<Rightarrow> (Inl (ErrOS e), log (TempFile p) (Some (ErrOS e)) w1)
         | None \<Rightarrow>
             if files w1 p \<noteq> None
             then (Inl ErrExist, log (TempFile p) (Some ErrExist) w1)
             else (Inr \<lparr>fname = p, closed = False\<rparr>,
                   log (TempFile p) None
                     (w1\<lparr>files := (files w1)(p \<mapsto> (NoValue, clock w1))\<rparr>))))"

definition os_Write :: "os_File \<Rightarrow> 'e content \<Rightarrow> 'e world \<Rightarrow> error option \<times> 'e world" where
  "os_Write f c w =
     (if closed f then (Some ErrClosed, w)
      else (case enter w of (s, w1) \<Rightarrow>
        (case fault s of
           Some e \<Rightarrow> (Some (ErrOS e), log (Write (fname f)) (Some (ErrOS e)) w1)
         | None \<Rightarrow>
             (None, log (Write (fname f)) None
                      (w1\<lparr>files := (files w1)(fname f \<mapsto> (c, clock w1))\<rparr>)))))"

definition os_Sync :: "os_File \<Rightarrow> 'e world \<Rightarrow> error option \<times> 'e world" where
  "os_Sync f w =
     (if closed f then (Some ErrClosed, w)
      else (case enter w of (s, w1) \<Rightarrow> (os_err s, log (Sync (fname f)) (os_err s) w1)))"

definition os_Close :: "os_File \<Rightarrow> 'e world \<Rightarrow> error option \<times> os_File \<times> 'e world" where
  "os_Close f w =
     (if closed f then (Some ErrClosed, f, w)
      else (case enter w of (s, w1) \<Rightarrow>
        (os_err s, f\<lparr>closed := True\<rparr>, log (Close (fname f)) (os_err s) w1)))"

text \<open>\<^verbatim>\<open>os.Stat\<close> returns the file information (here the modification time) or an error.\<close>

definition os_Stat :: "string \<Rightarrow> 'e world \<Rightarrow> nat option \<times> error option \<times> 'e world" where
  "os_Stat p w =
     (case enter w of (s, w1) \<Rightarrow>
        (case fault s of
           Some e \<Rightarrow> (None, Some (ErrOS e), log (Stat p) (Some (ErrOS e)) w1)
         | None \<Rightarrow>
             (case files w1 p of
                None \<Rightarrow> (None, Some ErrNotExist, log (Stat p) (Some ErrNotExist) w1)
              | Some (c, t) \<Rightarrow> (Some t, None, log (Stat p) None w1))))"

definition os_Rename :: "string \<Rightarrow> string \<Rightarrow> 'e world \<Rightarrow> error option \<times> 'e world" where
  "os_Rename old new w =
     (case enter w of (s, w1) \<Rightarrow>
        (case fault s of
           Some e \<Rightarrow> (Some (ErrOS e), log (Rename old new) (Some (ErrOS e)) w1)
         | None \<Rightarrow>
             (case files w1 old of
                None \<Rightarrow> (Some ErrNotExist, log (Rename old new) (Some ErrNotExist) w1)
              | Some d \<Rightarrow>
                  (None, log (Rename old new) None
                           (w1\<lparr>files := ((files w1)(old := None))(new \<mapsto> d)\<rparr>)))))"

definition os_Remove :: "string \<Rightarrow> 'e world \<Rightarrow> error option \<times> 'e world" where
  "os_Remove p w =
     (case enter w of (s, w1) \<Rightarrow>
        (case fault s of
           Some e \<Rightarrow> (Some (ErrOS e), log (Remove p) (Some (ErrOS e)) w1)
         | None \<Rightarrow>
             (case files w1 p of
                None \<Rightarrow> (Some ErrNotExist, log (Remove p) (Some ErrNotExist) w1)
              | Some d \<Rightarrow> (None, log (Remove p) None (w1\<lparr>files := (files w1)(p := None)\<rparr>)))))"

definition os_Open :: "string \<Rightarrow> 'e world \<Rightarrow> (error + os_File) \<times> 'e world" where
  "os_Open p w =
     (case enter w of (s, w1) \<Rightarrow>
        (case fault s of
           Some e \<Rightarrow> (Inl (ErrOS e), log (Open p) (Some (ErrOS e)) w1)
         | None \<Rightarrow>
             (case files w1 p of
                None \<Rightarrow> (Inl ErrNotExist, log (Open p) (Some ErrNotExist) w1)
              | Some d \<Rightarrow> (Inr \<lparr>fname = p, closed = False\<rparr>, log (Open p) None w1))))"

text \<open>Reading a stream to its end yields the content of the file, or an error.\<close>

definition os_Read :: "os_File \<Rightarrow> 'e world \<Rightarrow> (error + 'e content) \<times> 'e world" where
  "os_Read f w =
     (if closed f then (Inl ErrClosed, w)
      else (case enter w of (s, w1) \<Rightarrow>
        (case fault s of
           Some e \<Rightarrow> (Inl (ErrOS e), log (Read (fname f)) (Some (ErrOS e)) w1)
         | None \<Rightarrow>
             (case files w1 (fname f) of
                None \<Rightarrow> (Inr NoValue, log (Read (fname f)) None w1)
              | Some (c, t) \<Rightarrow> (Inr c, log (Read (fname f)) None w1)))))"

section \<open>The atomic file writer (persist.go)\<close>

text \<open>The field \<^verbatim>\<open>file\<close> is named \<open>afile\<close>: \<open>file\<close> is reserved.\<close>

record atomicFile =
  filename :: string
  afile :: "os_File option"
  ctime :: nat

text \<open>\<^verbatim>\<open>path.Split\<close>: the directory, up to and including the last slash, and the rest.\<close>

definition path_Split :: "string \<Rightarrow> string \<times> string" where
  "path_Split s =
     (rev (dropWhile (\<lambda>c. c \<noteq> CHR ''/'') (rev s)), rev (takeWhile (\<lambda>c. c \<noteq> CHR ''/'') (rev s)))"

definition create :: "string \<Rightarrow> atomicFile \<Rightarrow> 'e world \<Rightarrow> (error + os_File) \<times> atomicFile \<times> 'e world" where
  "create fn a w =
     (case path_Split fn of (dir, name) \<Rightarrow>
        (case os_TempFile dir name w of
           (Inl err, w1) \<Rightarrow> (Inl err, a\<lparr>filename := fn, afile := None\<rparr>, w1)
         | (Inr f, w1) \<Rightarrow> (Inr f, a\<lparr>filename := fn, afile := Some f, ctime := clock w1\<rparr>, w1)))"

definition isRetry :: "error option \<Rightarrow> bool" where
  "isRetry err = (err = Some ErrAtomicFileRetry)"

definition cancel :: "atomicFile \<Rightarrow> 'e world \<Rightarrow> error option \<times> atomicFile \<times> 'e world" where
  "cancel a w =
     (case afile a of
        None \<Rightarrow> (None, a, w)
      | Some f \<Rightarrow>
          (case os_Close f w of (_, f1, w1) \<Rightarrow>
             (case os_Remove (fname f1) w1 of (err, w2) \<Rightarrow>
                (if os_IsNotExist err then None else err, a\<lparr>afile := Some f1\<rparr>, w2))))"

text \<open>
  In \<^verbatim>\<open>commit\<close> the variable \<^verbatim>\<open>err\<close> first holds the result of \<^verbatim>\<open>Sync\<close>, or of \<^verbatim>\<open>Close\<close>
  when \<^verbatim>\<open>Sync\<close> succeeded; the statement \<^verbatim>\<open>fi, err := os.Stat(a.filename)\<close> declares
  only \<^verbatim>\<open>fi\<close> and assigns the same \<^verbatim>\<open>err\<close>. The model names the three values
  \<open>err0\<close>, \<open>err1\<close> and \<open>err2\<close>.
\<close>

definition commit :: "atomicFile \<Rightarrow> 'e world \<Rightarrow> error option \<times> atomicFile \<times> 'e world" where
  "commit a w =
     (case afile a of
        None \<Rightarrow> (None, a, w)
      | Some f \<Rightarrow>
          (case os_Sync f w of (err0, w1) \<Rightarrow>
          (case os_Close f w1 of (closeErr, f1, w2) \<Rightarrow>
          (let err1 = (if err0 = None then closeErr else err0);
               a1 = a\<lparr>afile := Some f1\<rparr> in
          (case os_Stat (filename a1) w2 of (fi, err2, w3) \<Rightarrow>
          (case (if err2 = None \<or> os_IsNotExist err2
                 then (if (case fi of None \<Rightarrow> False | Some t \<Rightarrow> ctime a1 < t)
                       then (Some ErrAtomicFileRetry, w3)
                       else os_Rename (fname f1) (filename a1) w3)
                 else (err2, w3)) of (err, w4) \<Rightarrow>
             (if err \<noteq> None
              then (case cancel a1 w4 of (_, a2, w5) \<Rightarrow> (err, a2, w5))
              else (case os_Close f1 w4 of (_, f2, w5) \<Rightarrow> (err, a1\<lparr>afile := Some f2\<rparr>, w5)))))))))"

section \<open>The store persister\<close>

text \<open>
  Modelled from the spec: the struct \<^verbatim>\<open>Jar\<close> is declared outside the files at hand. It is
  the store of the spec, an owner of one document plus a remembered path, with the two
  fields the code reads and writes, \<^verbatim>\<open>j.filename\<close> (here \<open>jar_filename\<close>) and
  \<^verbatim>\<open>j.entries\<close>. The mutex \<^verbatim>\<open>j.mu\<close> is not modelled: the model is sequential.
\<close>

record 'e Jar =
  jar_filename :: string
  entries :: "'e document"

text \<open>
  \<^verbatim>\<open>mergeEntries\<close>: for every outer key of \<open>m\<close>, allocate the inner map of the jar when
  it is missing, then copy every inner key of \<open>m\<close> under it.
\<close>

definition merge_inner :: "'e inner \<Rightarrow> 'e inner \<Rightarrow> 'e inner" where
  "merge_inner mi ji =
     fold (\<lambda>k1 acc. case map_of mi k1 of None \<Rightarrow> acc | Some v \<Rightarrow> AList.update k1 v acc)
       (map fst mi) ji"

definition merge_key :: "'e document \<Rightarrow> string \<Rightarrow> 'e document \<Rightarrow> 'e document" where
  "merge_key m k0 es =
     (case map_of m k0 of
        None \<Rightarrow> es
      | Some mi \<Rightarrow>
          (let es1 = (if map_of es k0 = None then AList.update k0 [] es else es)
           in (case map_of es1 k0 of
                 None \<Rightarrow> es1
               | Some ji \<Rightarrow> AList.update k0 (merge_inner mi ji) es1)))"

definition mergeEntries :: "'e document \<Rightarrow> 'e document \<Rightarrow> 'e document" where
  "mergeEntries m es = fold (merge_key m) (map fst m) es"

text \<open>
  \<^verbatim>\<open>encodeJSON\<close>: the encoder writes the map as one object, each key once, the keys
  in sorted order, and never fails on its own; the write may.
\<close>

definition encode_inner :: "'e inner \<Rightarrow> (string \<times> 'e) list" where
  "encode_inner i = sort_key fst (AList.clearjunk i)"

definition encode_doc :: "'e document \<Rightarrow> 'e content" where
  "encode_doc m = JSONObject (map (\<lambda>(k0, i). (k0, encode_inner i)) (sort_key fst (AList.clearjunk m)))"

definition encodeJSON :: "os_File \<Rightarrow> 'e document \<Rightarrow> 'e world \<Rightarrow> error option \<times> 'e world" where
  "encodeJSON f m w = os_Write f (encode_doc m) w"

text \<open>
  \<^verbatim>\<open>decodeJSON\<close> hands the decoder the address of its own parameter \<^verbatim>\<open>m\<close>, which shares
  the caller's map. On an object the decoder keeps the map it finds and stores every
  member of the object into it, each under its key with a newly allocated inner map; the
  caller sees these stores. On \<^verbatim>\<open>null\<close> it sets the parameter to nil, which the caller
  does not see. On an empty stream it returns \<^verbatim>\<open>io.EOF\<close>. The function returns the
  caller's map as it is after the call.
\<close>

definition decode_inner :: "(string \<times> 'e) list \<Rightarrow> 'e inner" where
  "decode_inner kvs = fold (\<lambda>(k1, e). AList.update k1 e) kvs []"

definition store_object :: "(string \<times> (string \<times> 'e) list) list \<Rightarrow> 'e document \<Rightarrow> 'e document" where
  "store_object kvs m = fold (\<lambda>(k0, v). AList.update k0 (decode_inner v)) kvs m"

definition decodeJSON :: "os_File \<Rightarrow> 'e document \<Rightarrow> 'e world \<Rightarrow> error option \<times> 'e document \<times> 'e world" where
  "decodeJSON r m w =
     (case os_Read r w of
        (Inl e, w1) \<Rightarrow> (Some e, m, w1)
      | (Inr NoValue, w1) \<Rightarrow> (Some ErrEOF, m, w1)
      | (Inr Malformed, w1) \<Rightarrow> (Some ErrSyntax, m, w1)
      | (Inr JSONNull, w1) \<Rightarrow> (None, m, w1)
      | (Inr (JSONObject kvs), w1) \<Rightarrow> (None, store_object kvs m, w1))"

definition loadJSON :: "string \<Rightarrow> 'e document \<Rightarrow> 'e world \<Rightarrow> error option \<times> 'e document \<times> 'e world" where
  "loadJSON path m w =
     (case os_Open path w of
        (Inl err, w1) \<Rightarrow> (if os_IsNotExist (Some err) then (None, m, w1) else (Some err, m, w1))
      | (Inr f, w1) \<Rightarrow>
          (case decodeJSON f m w1 of (err, m1, w2) \<Rightarrow>
             (case os_Close f w2 of (_, f1, w3) \<Rightarrow> (err, m1, w3))))"

definition Load :: "string \<Rightarrow> 'e Jar \<Rightarrow> 'e world \<Rightarrow> error option \<times> 'e Jar \<times> 'e world" where
  "Load path j w =
     (case loadJSON path (entries j) w of (err, m1, w1) \<Rightarrow>
        (if err \<noteq> None then (err, j\<lparr>entries := m1\<rparr>, w1)
         else (None, j\<lparr>jar_filename := path, entries := m1\<rparr>, w1)))"

definition WriteTo :: "'e Jar \<Rightarrow> os_File \<Rightarrow> 'e world \<Rightarrow> error option \<times> 'e world" where
  "WriteTo j f w = encodeJSON f (entries j) w"


text \<open>
  One pass through the body of the loop of \<^verbatim>\<open>Save\<close>: \<open>Inl\<close> is a \<^verbatim>\<open>return\<close>, \<open>Inr\<close> is
  the next iteration (the \<^verbatim>\<open>continue\<close>, or the end of the body). The call \<^verbatim>\<open>af.close()\<close>
  is \<open>commit\<close>, the name the writer has in persist.go.
\<close>

definition new_atomicFile :: atomicFile where
  "new_atomicFile = \<lparr>filename = [], afile = None, ctime = 0\<rparr>"

definition Save_attempt :: "'e Jar \<Rightarrow> 'e world \<Rightarrow> (error option \<times> 'e Jar \<times> 'e world) + ('e Jar \<times> 'e world)" where
  "Save_attempt j w =
     (case create (jar_filename j) new_atomicFile w of
        (Inl err, af, w1) \<Rightarrow> Inl (Some err, j, w1)
      | (Inr f, af, w1) \<Rightarrow>
          (case WriteTo j f w1 of
             (Some err, w2) \<Rightarrow> (case cancel af w2 of (_, af1, w3) \<Rightarrow> Inl (Some err, j, w3))
           | (None, w2) \<Rightarrow>
               (case commit af w2 of
                  (None, af1, w3) \<Rightarrow> Inl (None, j, w3)
                | (Some err, af1, w3) \<Rightarrow>
                    (case cancel af1 w3 of (_, af2, w4) \<Rightarrow>
                       if \<not> isRetry (Some err) then Inl (Some err, j, w4)
                       else (case loadJSON (jar_filename j) [] w4 of
                               (Some e, m, w5) \<Rightarrow> Inr (j, w5)
                             | (None, m, w5) \<Rightarrow>
                                 Inr (j\<lparr>entries := mergeEntries m (entries j)\<rparr>, w5))))))"

partial_function (option) Save_loop :: "'e Jar \<Rightarrow> 'e world \<Rightarrow> (error option \<times> 'e Jar \<times> 'e world) option" where
  "Save_loop j w =
     (case Save_attempt j w of
        Inl r \<Rightarrow> Some r
      | Inr (j1, w1) \<Rightarrow> Save_loop j1 w1)"

declare Save_loop.simps [code]

definition Save :: "'e Jar \<Rightarrow> 'e world \<Rightarrow> (error option \<times> 'e Jar \<times> 'e world) option" where
  "Save j w =
     (if jar_filename j = [] then Some (Some ErrNotLoaded, j, w)
      else Save_loop j w)"

section \<open>Notions used by the properties\<close>

text \<open>The calls made between two worlds, read off the trace.\<close>

definition calls_since :: "'e world \<Rightarrow> 'e world \<Rightarrow> call list" where
  "calls_since w w' = map fst (drop (length (trace w)) (trace w'))"

text \<open>No concurrent writer of the script writes the path.\<close>

definition unwritten :: "'e world \<Rightarrow> string \<Rightarrow> bool" where
  "unwritten w p = list_all (\<lambda>s. case writer s of None \<Rightarrow> True | Some (q, c) \<Rightarrow> q \<noteq> p) (script w)"

text \<open>Some removal in the trace was refused by the operating system.\<close>

definition removal_failed :: "'e world \<Rightarrow> bool" where
  "removal_failed w =
     list_ex (\<lambda>(c, r). case c of
                Remove p \<Rightarrow> (case r of Some (ErrOS e) \<Rightarrow> True | _ \<Rightarrow> False)
              | _ \<Rightarrow> False) (trace w)"


text \<open>
  How a world evolves into a later one: the trace grows at its end, the script is
  consumed from its front, every file created by \<^verbatim>\<open>TempFile\<close> on the way has its name
  in \<open>C\<close>, and outside the set \<open>S\<close> every path that no concurrent writer writes keeps its
  file.
\<close>

definition evolves :: "string set \<Rightarrow> string set \<Rightarrow> 'e world \<Rightarrow> 'e world \<Rightarrow> bool" where
  "evolves C S w w' =
     ((\<exists>evs. trace w' = trace w @ evs \<and> (\<forall>p. (TempFile p, None) \<in> set evs \<longrightarrow> p \<in> C)) \<and>
      (\<exists>used. script w = used @ script w') \<and>
      (\<forall>p. p \<notin> S \<longrightarrow> unwritten w p \<longrightarrow> files w' p = files w p))"

text \<open>
  The same for whole attempts on the target \<open>tgt\<close>: unless a removal was refused, only
  the target may have changed, and every temporary file was created under another name
  than the target's, a name that was free if no concurrent writer writes it.
\<close>

definition settles :: "string \<Rightarrow> 'e world \<Rightarrow> 'e world \<Rightarrow> bool" where
  "settles tgt w w' =
     ((\<exists>evs. trace w' = trace w @ evs \<and>
         (\<not> removal_failed w' \<longrightarrow>
            (\<forall>p. (TempFile p, None) \<in> set evs \<longrightarrow>
               p \<noteq> tgt \<and> (unwritten w p \<longrightarrow> files w p = None)))) \<and>
      (\<exists>used. script w = used @ script w') \<and>
      (\<not> removal_failed w' \<longrightarrow>
         (\<forall>p. p \<noteq> tgt \<longrightarrow> unwritten w p \<longrightarrow> files w' p = files w p)))"

text \<open>
  The document a file holds by itself: what the decoder yields on a newly allocated,
  empty map. A zero-length stream and malformed bytes hold none.
\<close>

definition fresh_decode :: "'e content \<Rightarrow> 'e document option" where
  "fresh_decode c =
     (case c of
        NoValue \<Rightarrow> None
      | Malformed \<Rightarrow> None
      | JSONNull \<Rightarrow> Some []
      | JSONObject kvs \<Rightarrow> Some (store_object kvs []))"


section \<open>Concrete inputs\<close>

text \<open>A world with no file, and a handle whose temporary file was never created.\<close>

definition bare_world :: "nat world" where
  "bare_world = \<lparr>files = Map.empty, clock = 0, script = [], trace = []\<rparr>"

definition failed_handle :: atomicFile where
  "failed_handle = \<lparr>filename = ''data/jar'', afile = None, ctime = 0\<rparr>"

text \<open>
  A handle on the written temporary file of the target \<open>data/jar\<close>, in a world where the
  target does not exist and the next call, the \<^verbatim>\<open>Sync\<close>, fails.
\<close>

definition written_handle :: atomicFile where
  "written_handle =
     \<lparr>filename = ''data/jar'', afile = Some \<lparr>fname = ''data/jar000000000'', closed = False\<rparr>, ctime = 1\<rparr>"

definition sync_fails_world :: "nat world" where
  "sync_fails_world =
     \<lparr>files = [''data/jar000000000'' \<mapsto> (JSONObject [], 1)], clock = 1,
      script = [\<lparr>fault = Some EIO, elapse = 0, writer = None, rnd = 0\<rparr>], trace = []\<rparr>"

text \<open>The documents of the merge example: the store's and the one found on disk.\<close>

definition store_doc :: "nat document" where
  "store_doc = [(''dom1'', [(''c1'', 1), (''c0'', 7)])]"

definition disk_doc :: "nat document" where
  "disk_doc = [(''dom1'', [(''c1'', 2)]), (''dom2'', [(''c2'', 3)])]"

text \<open>A newly created jar, and worlds whose file \<open>data/jar\<close> is zero-length or holds an empty object.\<close>

definition empty_jar :: "nat Jar" where
  "empty_jar = \<lparr>jar_filename = [], entries = []\<rparr>"

definition empty_file_world :: "nat world" where
  "empty_file_world = \<lparr>files = [''data/jar'' \<mapsto> (NoValue, 0)], clock = 0, script = [], trace = []\<rparr>"

definition empty_object_world :: "nat world" where
  "empty_object_world = \<lparr>files = [''data/jar'' \<mapsto> (JSONObject [], 0)], clock = 0, script = [], trace = []\<rparr>"

text \<open>A jar that holds a cookie of one domain, and a file that holds a cookie of another.\<close>

definition stale_jar :: "nat Jar" where
  "stale_jar = \<lparr>jar_filename = [], entries = [(''old.example'', [(''sid'', 1)])]\<rparr>"

definition disk_world :: "nat world" where
  "disk_world =
     \<lparr>files = [''data/jar'' \<mapsto> (JSONObject [(''new.example'', [(''tok'', 2)])], 0)],
      clock = 0, script = [], trace = []\<rparr>"

text \<open>A loaded jar with the store's document of the merge example.\<close>

definition loaded_jar :: "nat Jar" where
  "loaded_jar = \<lparr>jar_filename = ''data/jar'', entries = store_doc\<rparr>"


text \<open>
  A world with a concurrent writer: after the temporary file is created, and before the
  commit, another process replaces the target.
\<close>

definition raced_world :: "nat world" where
  "raced_world =
     \<lparr>files = Map.empty, clock = 0,
      script = [quiet, \<lparr>fault = None, elapse = 1, writer = Some (''data/jar'', JSONObject disk_doc), rnd = 0\<rparr>],
      trace = []\<rparr>"


text \<open>
  A world in which the target was replaced (at time 2) after the handle \<open>written_handle\<close>
  was created (at time 1).
\<close>

definition overtaken_world :: "nat world" where
  "overtaken_world =
     \<lparr>files = [''data/jar000000000'' \<mapsto> (JSONObject [], 1), ''data/jar'' \<mapsto> (JSONObject disk_doc, 2)],
      clock = 2, script = [], trace = []\<rparr>"

text \<open>The same world, where the \<^verbatim>\<open>os.Stat\<close> of the target is refused.\<close>

definition overtaken_unstatable_world :: "nat world" where
  "overtaken_unstatable_world =
     \<lparr>files = [''data/jar000000000'' \<mapsto> (JSONObject [], 1), ''data/jar'' \<mapsto> (JSONObject disk_doc, 2)],
      clock = 2,
      script = [quiet, quiet, \<lparr>fault = Some EACCES, elapse = 0, writer = None, rnd = 0\<rparr>],
      trace = []\<rparr>"

text \<open>The same world, where the removal of the temporary file is refused.\<close>

definition overtaken_stuck_world :: "nat world" where
  "overtaken_stuck_world =
     \<lparr>files = [''data/jar000000000'' \<mapsto> (JSONObject [], 1), ''data/jar'' \<mapsto> (JSONObject disk_doc, 2)],
      clock = 2,
      script = [quiet, quiet, quiet, \<lparr>fault = Some EIO, elapse = 0, writer = None, rnd = 0\<rparr>],
      trace = []\<rparr>"

text \<open>The race of \<open>raced_world\<close>, where the reload of the target fails while reading.\<close>

definition raced_read_fails_world :: "nat world" where
  "raced_read_fails_world =
     \<lparr>files = Map.empty, clock = 0,
      script = [quiet, \<lparr>fault = None, elapse = 1, writer = Some (''data/jar'', JSONObject disk_doc), rnd = 0\<rparr>,
                quiet, quiet, quiet, quiet, quiet, quiet,
                \<lparr>fault = Some EIO, elapse = 0, writer = None, rnd = 0\<rparr>],
      trace = []\<rparr>"


section \<open>Unfolding the model\<close>

lemmas os_defs = os_Sync_def os_Close_def os_Stat_def os_Rename_def os_Remove_def os_Open_def
  os_Read_def os_Write_def os_TempFile_def enter_def log_def os_err_def quiet_def
  os_IsNotExist_def nextSuffix_def temp_path_def os_TempDir_def Let_def

lemmas af_defs = commit_def cancel_def create_def isRetry_def path_Split_def new_atomicFile_def

lemmas jar_defs = Save_attempt_def WriteTo_def encodeJSON_def encode_doc_def encode_inner_def
  loadJSON_def decodeJSON_def store_object_def decode_inner_def mergeEntries_def merge_key_def
  merge_inner_def Load_def

section \<open>A handle without a temporary file\<close>

text \<open>
  C10. On a handle whose temporary file was never created, \<open>commit\<close> and \<open>cancel\<close>
  return no error at once: the handle and the world, with its files, its script and its
  trace, are what they were, so no call was made.
\<close>

theorem commit_cancel_without_file:
  "afile a = None \<Longrightarrow> commit a w = (None, a, w) \<and> cancel a w = (None, a, w)"
  by (simp add: commit_def cancel_def)

theorem commit_cancel_without_file_witness:
  "afile failed_handle = None \<and>
   commit failed_handle bare_world = (None, failed_handle, bare_world) \<and>
   cancel failed_handle bare_world = (None, failed_handle, bare_world)"
proof -
  have h: "afile failed_handle = None"
    by (simp add: failed_handle_def)
  from commit_cancel_without_file [OF h, of bare_world] h show ?thesis
    by blast
qed

section \<open>The merge\<close>








lemma mergeEntries_Nil: "mergeEntries [] es = es"
  by (simp add: mergeEntries_def)



section \<open>The error of the flush\<close>

text \<open>
  C4, at the failing input. The \<^verbatim>\<open>Sync\<close> of the temporary file fails with an
  input/output error and the target does not exist: \<open>commit\<close> returns no error, does not
  cancel, and renames the unflushed file onto the target. The error of the flush is
  overwritten by the result of \<^verbatim>\<open>os.Stat\<close>.
\<close>

theorem commit_drops_sync_error:
  "(case commit written_handle sync_fails_world of (err, a', w') \<Rightarrow>
      err = None \<and>
      files w' ''data/jar'' = Some (JSONObject [], 1) \<and>
      files w' ''data/jar000000000'' = None \<and>
      trace w' = [(Sync ''data/jar000000000'', Some (ErrOS EIO)), (Close ''data/jar000000000'', None),
                  (Stat ''data/jar'', Some ErrNotExist), (Rename ''data/jar000000000'' ''data/jar'', None)])"
  by (simp add: written_handle_def sync_fails_world_def af_defs os_defs)

section \<open>Decoding and loading\<close>

lemma map_of_fold_update:
  "map_of (fold (\<lambda>(k, v). AList.update k (f v)) kvs m) =
   map_of m ++ map_of (map (\<lambda>(k, v). (k, f v)) (rev kvs))"
proof (induction kvs arbitrary: m)
  case Nil
  then show ?case by simp
next
  case (Cons x xs)
  obtain k v where x: "x = (k, v)" by (cases x)
  show ?case
    by (simp add: Cons.IH x update_conv' map_of_append fun_eq_iff map_add_def split: option.splits)
qed

lemma map_of_store_object:
  "map_of (store_object kvs m) = map_of m ++ map_of (store_object kvs [])"
  by (simp add: store_object_def map_of_fold_update)

lemma doc_map_store_object:
  "doc_map (store_object kvs m) = doc_map m ++ doc_map (store_object kvs [])"
  by (auto simp: doc_map_def fun_eq_iff map_of_store_object [of kvs m] map_add_def
      split: option.splits)

lemma doc_map_Nil: "doc_map [] = Map.empty"
  by (simp add: doc_map_def fun_eq_iff)

lemma enter_quiet: "script w = [] \<Longrightarrow> enter w = (quiet, w)"
  by (simp add: enter_def)

lemma Load_quiet:
  assumes "script w = []"
  shows "fst (Load p j w) =
           (case files w p of
              None \<Rightarrow> None
            | Some (c, t) \<Rightarrow>
                (case c of NoValue \<Rightarrow> Some ErrEOF | Malformed \<Rightarrow> Some ErrSyntax | _ \<Rightarrow> None))"
    and "fst (snd (Load p j w)) =
           (case files w p of
              None \<Rightarrow> j\<lparr>jar_filename := p\<rparr>
            | Some (c, t) \<Rightarrow>
                (case c of
                   NoValue \<Rightarrow> j
                 | Malformed \<Rightarrow> j
                 | JSONNull \<Rightarrow> j\<lparr>jar_filename := p\<rparr>
                 | JSONObject kvs \<Rightarrow> j\<lparr>jar_filename := p, entries := store_object kvs (entries j)\<rparr>))"
  using assms
  by (auto simp: Load_def loadJSON_def decodeJSON_def os_Open_def os_Read_def os_Close_def
      enter_quiet log_def quiet_def os_err_def os_IsNotExist_def
      split: option.splits content.splits)

text \<open>
  C6, as the code has it. The two loads differ on a zero-length file: the decoder reports the
  end of the input, \<open>Load\<close> returns that error and does not record the path, while on a
  missing file \<open>Load\<close> succeeds.
\<close>

theorem Load_empty_file_counterexample:
  "fst (Load ''data/jar'' empty_jar bare_world) = None \<and>
   fst (Load ''data/jar'' empty_jar empty_file_world) = Some ErrEOF \<and>
   jar_filename (fst (snd (Load ''data/jar'' empty_jar bare_world))) = ''data/jar'' \<and>
   jar_filename (fst (snd (Load ''data/jar'' empty_jar empty_file_world))) = []"
  by (simp add: Load_quiet empty_jar_def bare_world_def empty_file_world_def)

text \<open>
  C6, amended. In a quiet world, \<open>Load\<close> of a missing file and \<open>Load\<close> of a file that
  holds the empty object both succeed, record the path and leave the document as it was
  (empty when it was empty); \<open>Load\<close> of a zero-length file returns the end-of-input error
  and leaves the jar as it was, the path not recorded.
\<close>

theorem Load_missing_or_empty:
  assumes "script w = []"
  shows "(files w p = None \<longrightarrow>
            fst (Load p j w) = None \<and> fst (snd (Load p j w)) = j\<lparr>jar_filename := p\<rparr>) \<and>
         (\<forall>t. files w p = Some (JSONObject [], t) \<longrightarrow>
            fst (Load p j w) = None \<and> fst (snd (Load p j w)) = j\<lparr>jar_filename := p\<rparr>) \<and>
         (\<forall>t. files w p = Some (NoValue, t) \<longrightarrow>
            fst (Load p j w) = Some ErrEOF \<and> fst (snd (Load p j w)) = j)"
  by (simp add: Load_quiet [OF assms] store_object_def)

theorem Load_missing_or_empty_witness:
  "(script bare_world = [] \<and> files bare_world ''data/jar'' = None \<and>
    fst (Load ''data/jar'' empty_jar bare_world) = None \<and>
    fst (snd (Load ''data/jar'' empty_jar bare_world)) = empty_jar\<lparr>jar_filename := ''data/jar''\<rparr>) \<and>
   (script empty_object_world = [] \<and> files empty_object_world ''data/jar'' = Some (JSONObject [], 0) \<and>
    fst (Load ''data/jar'' empty_jar empty_object_world) = None \<and>
    fst (snd (Load ''data/jar'' empty_jar empty_object_world)) = empty_jar\<lparr>jar_filename := ''data/jar''\<rparr>) \<and>
   (script empty_file_world = [] \<and> files empty_file_world ''data/jar'' = Some (NoValue, 0) \<and>
    fst (Load ''data/jar'' empty_jar empty_file_world) = Some ErrEOF \<and>
    fst (snd (Load ''data/jar'' empty_jar empty_file_world)) = empty_jar)"
proof -
  have q1: "script bare_world = []" and f1: "files bare_world ''data/jar'' = None"
    by (simp_all add: bare_world_def)
  have q2: "script empty_object_world = []"
    and f2: "files empty_object_world ''data/jar'' = Some (JSONObject [], 0)"
    by (simp_all add: empty_object_world_def)
  have q3: "script empty_file_world = []"
    and f3: "files empty_file_world ''data/jar'' = Some (NoValue, 0)"
    by (simp_all add: empty_file_world_def)
  from Load_missing_or_empty [OF q1, of "''data/jar''" empty_jar]
    Load_missing_or_empty [OF q2, of "''data/jar''" empty_jar]
    Load_missing_or_empty [OF q3, of "''data/jar''" empty_jar]
    q1 f1 q2 f2 q3 f3
  show ?thesis
    by blast
qed

text \<open>
  C7, as the code has it. The jar holds a cookie of \<open>old.example\<close>, the file holds one of
  \<open>new.example\<close> only: after the successful \<open>Load\<close> the old cookie is still in the jar.
\<close>

theorem Load_keeps_old_keys_counterexample:
  "fst (Load ''data/jar'' stale_jar disk_world) = None \<and>
   fresh_decode (JSONObject [(''new.example'', [(''tok'', 2::nat)])]) = Some [(''new.example'', [(''tok'', 2)])] \<and>
   entry_at [(''new.example'', [(''tok'', 2::nat)])] ''old.example'' ''sid'' = None \<and>
   entry_at (entries (fst (snd (Load ''data/jar'' stale_jar disk_world)))) ''old.example'' ''sid'' = Some 1"
  by (simp add: Load_quiet stale_jar_def disk_world_def fresh_decode_def store_object_def
      decode_inner_def entry_at_def)

lemma Load_quiet_overlay:
  assumes "script w = []" and "files w p = Some (c, t)" and "fresh_decode c = Some d"
  shows "fst (Load p j w) = None \<and>
         doc_map (entries (fst (snd (Load p j w)))) = doc_map (entries j) ++ doc_map d \<and>
         (entries j = [] \<longrightarrow> doc_map (entries (fst (snd (Load p j w)))) = doc_map d)"
  using assms(2,3)
  by (auto simp: Load_quiet [OF assms(1)] fresh_decode_def doc_map_store_object [of _ "entries j"]
      doc_map_Nil split: content.splits)

text \<open>
  C7, amended. In a quiet world, \<open>Load\<close> of a file that holds a document succeeds, and the
  jar's document afterwards is the file's document laid over the document held before,
  outer key by outer key: an outer key of the file has exactly the file's inner map, an
  outer key the file does not have keeps its inner map. The jar's document is the file's
  document when the jar was empty before.
\<close>

theorem Load_overlays:
  assumes "script w = []" and "files w p = Some (c, t)" and "fresh_decode c = Some d"
  shows "fst (Load p j w) = None \<and>
         doc_map (entries (fst (snd (Load p j w)))) = doc_map (entries j) ++ doc_map d \<and>
         (entries j = [] \<longrightarrow> doc_map (entries (fst (snd (Load p j w)))) = doc_map d)"
  using assms by (rule Load_quiet_overlay)

theorem Load_overlays_witness:
  "(script disk_world = [] \<and>
    files disk_world ''data/jar'' = Some (JSONObject [(''new.example'', [(''tok'', 2)])], 0) \<and>
    fresh_decode (JSONObject [(''new.example'', [(''tok'', 2::nat)])]) = Some [(''new.example'', [(''tok'', 2)])] \<and>
    fst (Load ''data/jar'' stale_jar disk_world) = None \<and>
    doc_map (entries (fst (snd (Load ''data/jar'' stale_jar disk_world)))) =
      doc_map (entries stale_jar) ++ doc_map [(''new.example'', [(''tok'', 2)])]) \<and>
   (entries empty_jar = [] \<and>
    doc_map (entries (fst (snd (Load ''data/jar'' empty_jar disk_world)))) =
      doc_map [(''new.example'', [(''tok'', 2)])])"
proof -
  have q: "script disk_world = []"
    and f: "files disk_world ''data/jar'' = Some (JSONObject [(''new.example'', [(''tok'', 2)])], 0)"
    by (simp_all add: disk_world_def)
  have d: "fresh_decode (JSONObject [(''new.example'', [(''tok'', 2::nat)])]) =
           Some [(''new.example'', [(''tok'', 2)])]"
    by (simp add: fresh_decode_def store_object_def decode_inner_def)
  have e: "entries empty_jar = []"
    by (simp add: empty_jar_def)
  from Load_overlays [OF q f d, of stale_jar] Load_overlays [OF q f d, of empty_jar] q f d e
  show ?thesis
    by blast
qed

section \<open>The round trip\<close>
















section \<open>What each call changes\<close>

lemma evolves_refl: "evolves C S w w"
  by (simp add: evolves_def)

lemma unwritten_suffix: "script w = used @ script w' \<Longrightarrow> unwritten w p \<Longrightarrow> unwritten w' p"
  by (simp add: unwritten_def)

lemma evolves_trans:
  assumes "evolves C S w w1" and "evolves D T w1 w2"
  shows "evolves (C \<union> D) (S \<union> T) w w2"
proof -
  from assms(1) obtain e1 u1 where
    t1: "trace w1 = trace w @ e1" and c1: "\<forall>p. (TempFile p, None) \<in> set e1 \<longrightarrow> p \<in> C"
    and s1: "script w = u1 @ script w1"
    unfolding evolves_def by blast
  from assms(2) obtain e2 u2 where
    t2: "trace w2 = trace w1 @ e2" and c2: "\<forall>p. (TempFile p, None) \<in> set e2 \<longrightarrow> p \<in> D"
    and s2: "script w1 = u2 @ script w2"
    unfolding evolves_def by blast
  have "files w2 p = files w p" if "p \<notin> S \<union> T" "unwritten w p" for p
  proof -
    from that s1 have "unwritten w1 p" by (auto intro: unwritten_suffix)
    with that assms show ?thesis by (simp add: evolves_def)
  qed
  moreover from t1 t2 c1 c2 have "trace w2 = trace w @ (e1 @ e2) \<and>
      (\<forall>p. (TempFile p, None) \<in> set (e1 @ e2) \<longrightarrow> p \<in> C \<union> D)"
    by auto
  moreover from s1 s2 have "script w = (u1 @ u2) @ script w2" by simp
  ultimately show ?thesis
    unfolding evolves_def by blast
qed



lemma evolves_removal_failed: "evolves C S w w' \<Longrightarrow> removal_failed w \<Longrightarrow> removal_failed w'"
  by (auto simp: evolves_def removal_failed_def)

lemma evolves_files: "evolves C S w w' \<Longrightarrow> p \<notin> S \<Longrightarrow> unwritten w p \<Longrightarrow> files w' p = files w p"
  by (simp add: evolves_def)

lemma enter_evolves: "enter w = (s, w1) \<Longrightarrow> evolves {} {} w w1"
  by (cases "script w")
    (auto simp: enter_def evolves_def unwritten_def split: option.splits)

lemma log_evolves: "(\<forall>p. c = TempFile p \<longrightarrow> r \<noteq> None) \<Longrightarrow> evolves {} {} w (log c r w)"
  by (auto simp: evolves_def log_def)

lemma enter_log_evolves:
  "enter w = (s, w1) \<Longrightarrow> (\<forall>p. c = TempFile p \<longrightarrow> r \<noteq> None) \<Longrightarrow> evolves {} {} w (log c r w1)"
  using evolves_trans [OF enter_evolves log_evolves] by simp

lemma os_Sync_evolves: "os_Sync f w = (r, w1) \<Longrightarrow> evolves {} {} w w1"
  by (auto simp: os_Sync_def evolves_refl enter_log_evolves split: if_splits prod.splits)

lemma os_Close_evolves: "os_Close f w = (r, f1, w1) \<Longrightarrow> evolves {} {} w w1 \<and> fname f1 = fname f"
  by (auto simp: os_Close_def evolves_refl enter_log_evolves split: if_splits prod.splits)

lemma os_Stat_evolves: "os_Stat p w = (fi, r, w1) \<Longrightarrow> evolves {} {} w w1"
  by (auto simp: os_Stat_def enter_log_evolves split: prod.splits option.splits)



lemma files_log [simp]: "files (log c r w) = files w"
  by (simp add: log_def)

lemma script_log [simp]: "script (log c r w) = script w"
  by (simp add: log_def)

lemma trace_log [simp]: "trace (log c r w) = trace w @ [(c, r)]"
  by (simp add: log_def)

lemma enter_then_evolves:
  "enter w = (s, w1) \<Longrightarrow> \<forall>q. q \<notin> S \<longrightarrow> files w2 q = files w1 q \<Longrightarrow>
   trace w2 = trace w1 @ evs \<Longrightarrow> \<forall>p. (TempFile p, None) \<in> set evs \<longrightarrow> p \<in> C \<Longrightarrow>
   script w2 = script w1 \<Longrightarrow> evolves C S w w2"
  using enter_evolves [of w s w1] by (auto simp: evolves_def)


lemma removal_failed_log:
  "removal_failed (log c r w) =
     (removal_failed w \<or> (\<exists>p e. c = Remove p \<and> r = Some (ErrOS e)))"
  by (auto simp: removal_failed_def log_def split: call.splits option.splits error.splits)

lemma os_Remove_evolves:
  "os_Remove p w = (r, w1) \<Longrightarrow>
   evolves {} {p} w w1 \<and> (\<not> removal_failed w1 \<longrightarrow> files w1 p = None)"
  by (cases "enter w")
    (auto simp: os_Remove_def removal_failed_log intro!: enter_then_evolves
      split: option.splits if_splits)





section \<open>What the writer and the loader change\<close>

lemma cancel_evolves:
  assumes "cancel a w = (r, a', w')" and "afile a = Some f"
  shows "evolves {} {fname f} w w'"
    and "\<not> removal_failed w' \<Longrightarrow> files w' (fname f) = None"
    and "\<exists>f'. afile a' = Some f' \<and> fname f' = fname f"
    and "filename a' = filename a"
proof -
  from assms obtain x f1 w1 err where
    c: "os_Close f w = (x, f1, w1)" and rm: "os_Remove (fname f1) w1 = (err, w')"
    and a': "a' = a\<lparr>afile := Some f1\<rparr>"
    by (auto simp: cancel_def split: prod.splits)
  from os_Close_evolves [OF c] have e1: "evolves {} {} w w1" and n: "fname f1 = fname f"
    by simp_all
  from os_Remove_evolves [OF rm] n have e2: "evolves {} {fname f} w1 w'"
    and gone: "\<not> removal_failed w' \<longrightarrow> files w' (fname f) = None"
    by simp_all
  from evolves_trans [OF e1 e2] show "evolves {} {fname f} w w'" by simp
  from gone show "\<not> removal_failed w' \<Longrightarrow> files w' (fname f) = None" by simp
  from a' n show "\<exists>f'. afile a' = Some f' \<and> fname f' = fname f" by simp
  from a' show "filename a' = filename a" by simp
qed


lemma commit_unfold:
  assumes "afile a = Some f" and "os_Sync f w = (err0, w1)"
    and "os_Close f w1 = (closeErr, f1, w2)" and "os_Stat (filename a) w2 = (fi, err2, w3)"
  shows "commit a w =
     (if err2 = None \<or> err2 = Some ErrNotExist
      then (if (\<exists>t. fi = Some t \<and> ctime a < t)
            then (case cancel (a\<lparr>afile := Some f1\<rparr>) w3 of
                    (_, a2, w5) \<Rightarrow> (Some ErrAtomicFileRetry, a2, w5))
            else (case os_Rename (fname f1) (filename a) w3 of
                    (None, w4) \<Rightarrow>
                      (case os_Close f1 w4 of (_, f2, w5) \<Rightarrow> (None, a\<lparr>afile := Some f2\<rparr>, w5))
                  | (Some e, w4) \<Rightarrow>
                      (case cancel (a\<lparr>afile := Some f1\<rparr>) w4 of (_, a2, w5) \<Rightarrow> (Some e, a2, w5))))
      else (case cancel (a\<lparr>afile := Some f1\<rparr>) w3 of (_, a2, w5) \<Rightarrow> (err2, a2, w5)))"
  using assms
  by (auto simp: commit_def Let_def os_IsNotExist_def split: prod.splits option.splits)








section \<open>What a save leaves behind\<close>


lemma settles_refl: "settles tgt w w"
  by (simp add: settles_def)







lemmas run_defs = Save_def Save_loop.simps loaded_jar_def store_doc_def disk_doc_def
  removal_failed_def unwritten_def jar_defs af_defs os_defs






section \<open>The conflict inside \<open>Save\<close>\<close>

lemma create_error_not_retry: "create fn a0 w = (Inl e, a, w1) \<Longrightarrow> e \<noteq> ErrAtomicFileRetry"
  by (auto simp: create_def os_TempFile_def Let_def split: prod.splits sum.splits option.splits if_splits)

lemma WriteTo_error_not_retry: "WriteTo j f w = (Some e, w1) \<Longrightarrow> e \<noteq> ErrAtomicFileRetry"
  by (auto simp: WriteTo_def encodeJSON_def os_Write_def split: prod.splits option.splits if_splits)

lemma Save_attempt_not_retry:
  "Save_attempt j w = Inl (err, j', w') \<Longrightarrow> err \<noteq> Some ErrAtomicFileRetry"
  by (auto simp: Save_attempt_def isRetry_def
      split: prod.splits sum.splits option.splits if_splits
      dest: create_error_not_retry WriteTo_error_not_retry)

lemma Save_loop_not_retry:
  assumes "Save_loop j w = Some r"
  shows "fst r \<noteq> Some ErrAtomicFileRetry"
proof (rule Save_loop.raw_induct [where P = "\<lambda>j w r. fst r \<noteq> Some ErrAtomicFileRetry", OF _ assms])
  fix loop :: "'a Jar \<Rightarrow> 'a world \<Rightarrow> (error option \<times> 'a Jar \<times> 'a world) option"
    and j w r
  assume IH: "\<And>j w r. loop j w = Some r \<Longrightarrow> fst r \<noteq> Some ErrAtomicFileRetry"
    and step: "(case Save_attempt j w of Inl r \<Rightarrow> Some r | Inr (j1, w1) \<Rightarrow> loop j1 w1) = Some r"
  show "fst r \<noteq> Some ErrAtomicFileRetry"
  proof (cases "Save_attempt j w")
    case (Inl r')
    with step Save_attempt_not_retry [of j w "fst r" "fst (snd r)" "snd (snd r)"] show ?thesis
      by simp
  next
    case (Inr jw)
    with step IH show ?thesis
      by (auto split: prod.splits)
  qed
qed


text \<open>
  C3, as the code has it. A concurrent writer replaces the target during the first
  attempt, the commit reports the conflict, and the reload fails while reading. The next
  attempt runs with the entries as they were: nothing was merged, and the cookie of
  \<open>dom2\<close> that the other writer had stored is in neither the jar nor, after the rename,
  the file.
\<close>

theorem retry_without_merge_counterexample:
  "(case Save loaded_jar raced_read_fails_world of
      None \<Rightarrow> False
    | Some (err, j', w') \<Rightarrow>
        err = None \<and> entries j' = store_doc \<and>
        entry_at disk_doc ''dom2'' ''c2'' = Some 3 \<and>
        entry_at (entries j') ''dom2'' ''c2'' = None \<and>
        trace w' =
          [(TempFile ''data/jar000000000'', None), (Write ''data/jar000000000'', None),
           (Sync ''data/jar000000000'', None), (Close ''data/jar000000000'', None),
           (Stat ''data/jar'', None), (Remove ''data/jar000000000'', None),
           (Remove ''data/jar000000000'', Some ErrNotExist),
           (Open ''data/jar'', None), (Read ''data/jar'', Some (ErrOS EIO)), (Close ''data/jar'', None),
           (TempFile ''data/jar000000000'', None), (Write ''data/jar000000000'', None),
           (Sync ''data/jar000000000'', None), (Close ''data/jar000000000'', None),
           (Stat ''data/jar'', None), (Rename ''data/jar000000000'' ''data/jar'', None)])"
  by (simp add: raced_read_fails_world_def entry_at_def run_defs)


text \<open>
  C3, amended. \<open>Save\<close> never returns the retry error. When the commit of an attempt
  reports the conflict, the attempt calls \<open>cancel\<close>, reloads the target and does not
  return: the loop goes on with the next attempt, the loaded document merged into the
  entries when the reload succeeded, the entries unchanged when it failed.
\<close>

theorem Save_never_returns_retry:
  "(\<forall>err j' w'. Save j w = Some (err, j', w') \<longrightarrow> err \<noteq> Some ErrAtomicFileRetry) \<and>
   (\<forall>f af w1 w2 af1 w3 x af2 w4 e m w5.
      create (jar_filename j) new_atomicFile w = (Inr f, af, w1) \<longrightarrow>
      WriteTo j f w1 = (None, w2) \<longrightarrow>
      commit af w2 = (Some ErrAtomicFileRetry, af1, w3) \<longrightarrow>
      cancel af1 w3 = (x, af2, w4) \<longrightarrow>
      loadJSON (jar_filename j) [] w4 = (e, m, w5) \<longrightarrow>
      Save_attempt j w =
        Inr (if e = None then j\<lparr>entries := mergeEntries m (entries j)\<rparr> else j, w5) \<and>
      Save_loop j w =
        Save_loop (if e = None then j\<lparr>entries := mergeEntries m (entries j)\<rparr> else j) w5)"
proof (intro conjI allI impI)
  fix err j' w'
  assume "Save j w = Some (err, j', w')"
  then show "err \<noteq> Some ErrAtomicFileRetry"
    using Save_loop_not_retry [of j w "(err, j', w')"]
    by (auto simp: Save_def split: if_splits)
next
  fix f af w1 w2 af1 w3 x af2 w4 e m w5
  assume a: "create (jar_filename j) new_atomicFile w = (Inr f, af, w1)"
    "WriteTo j f w1 = (None, w2)"
    "commit af w2 = (Some ErrAtomicFileRetry, af1, w3)"
    "cancel af1 w3 = (x, af2, w4)"
    "loadJSON (jar_filename j) [] w4 = (e, m, w5)"
  then show att: "Save_attempt j w =
        Inr (if e = None then j\<lparr>entries := mergeEntries m (entries j)\<rparr> else j, w5)"
    by (cases e) (simp_all add: Save_attempt_def isRetry_def)
  show "Save_loop j w =
        Save_loop (if e = None then j\<lparr>entries := mergeEntries m (entries j)\<rparr> else j) w5"
    by (subst Save_loop.simps) (simp add: att)
qed

theorem Save_never_returns_retry_witness:
  "(\<exists>err j' w'. Save loaded_jar raced_world = Some (err, j', w') \<and>
       err \<noteq> Some ErrAtomicFileRetry) \<and>
   (\<exists>f af w1 w2 af1 w3 x af2 w4 e m w5.
      create (jar_filename loaded_jar) new_atomicFile raced_world = (Inr f, af, w1) \<and>
      WriteTo loaded_jar f w1 = (None, w2) \<and>
      commit af w2 = (Some ErrAtomicFileRetry, af1, w3) \<and>
      cancel af1 w3 = (x, af2, w4) \<and>
      loadJSON (jar_filename loaded_jar) [] w4 = (e, m, w5) \<and>
      Save_attempt loaded_jar raced_world =
        Inr (if e = None then loaded_jar\<lparr>entries := mergeEntries m (entries loaded_jar)\<rparr>
             else loaded_jar, w5) \<and>
      Save_loop loaded_jar raced_world =
        Save_loop (if e = None then loaded_jar\<lparr>entries := mergeEntries m (entries loaded_jar)\<rparr>
                   else loaded_jar) w5)"
proof -
  note main = Save_never_returns_retry [of loaded_jar raced_world]
  have "\<exists>r. Save loaded_jar raced_world = Some r"
    by (simp add: raced_world_def run_defs)
  then obtain err j' w' where s: "Save loaded_jar raced_world = Some (err, j', w')"
    by (metis prod_cases3)
  from main s have nr: "err \<noteq> Some ErrAtomicFileRetry"
    by blast
  have "\<exists>f af w1 w2 af1 w3 x af2 w4 e m w5.
      create (jar_filename loaded_jar) new_atomicFile raced_world = (Inr f, af, w1) \<and>
      WriteTo loaded_jar f w1 = (None, w2) \<and>
      commit af w2 = (Some ErrAtomicFileRetry, af1, w3) \<and>
      cancel af1 w3 = (x, af2, w4) \<and>
      loadJSON (jar_filename loaded_jar) [] w4 = (e, m, w5)"
    by (simp add: raced_world_def run_defs)
  then obtain f af w1 w2 af1 w3 x af2 w4 e m w5 where
    h: "create (jar_filename loaded_jar) new_atomicFile raced_world = (Inr f, af, w1)"
      "WriteTo loaded_jar f w1 = (None, w2)"
      "commit af w2 = (Some ErrAtomicFileRetry, af1, w3)"
      "cancel af1 w3 = (x, af2, w4)"
      "loadJSON (jar_filename loaded_jar) [] w4 = (e, m, w5)"
    by blast
  from main h have
    "Save_attempt loaded_jar raced_world =
        Inr (if e = None then loaded_jar\<lparr>entries := mergeEntries m (entries loaded_jar)\<rparr>
             else loaded_jar, w5) \<and>
     Save_loop loaded_jar raced_world =
        Save_loop (if e = None then loaded_jar\<lparr>entries := mergeEntries m (entries loaded_jar)\<rparr>
                   else loaded_jar) w5"
    by blast
  with s nr h show ?thesis
    by blast
qed







section \<open>The conflict in \<open>commit\<close>\<close>

lemma enter_trace: "enter w = (s, w1) \<Longrightarrow> trace w1 = trace w"
  by (auto simp: enter_def split: list.splits)

lemma os_Sync_calls:
  "os_Sync f w = (r, w1) \<Longrightarrow>
   \<exists>evs. trace w1 = trace w @ evs \<and> set (map fst evs) \<subseteq> {Sync (fname f)}"
  by (auto simp: os_Sync_def dest: enter_trace split: if_splits prod.splits)

lemma os_Close_calls:
  "os_Close f w = (r, f1, w1) \<Longrightarrow>
   \<exists>evs. trace w1 = trace w @ evs \<and> set (map fst evs) \<subseteq> {Close (fname f)}"
  by (auto simp: os_Close_def dest: enter_trace split: if_splits prod.splits)

lemma os_Remove_calls: "os_Remove p w = (r, w1) \<Longrightarrow> trace w1 = trace w @ [(Remove p, r)]"
  by (auto simp: os_Remove_def dest: enter_trace split: prod.splits option.splits)

lemma os_Stat_result:
  assumes "os_Stat p w = (fi, err, w1)"
  shows "trace w1 = trace w @ [(Stat p, err)]"
    and "err \<noteq> Some ErrAtomicFileRetry"
    and "(fi = Some t) = (err = None \<and> (\<exists>c. files w1 p = Some (c, t)))"
  using assms
  by (auto simp: os_Stat_def dest: enter_trace split: prod.splits option.splits)

lemma os_Rename_not_retry: "os_Rename old new w = (r, w1) \<Longrightarrow> r \<noteq> Some ErrAtomicFileRetry"
  by (auto simp: os_Rename_def split: prod.splits option.splits)

lemma cancel_calls:
  assumes "cancel a w = (x, a', w')" and "afile a = Some f"
  shows "\<exists>evs. trace w' = trace w @ evs \<and>
           set (map fst evs) \<subseteq> {Close (fname f), Remove (fname f)} \<and>
           Remove (fname f) \<in> set (map fst evs)"
proof -
  from assms obtain y f1 w1 err where
    c: "os_Close f w = (y, f1, w1)" and rm: "os_Remove (fname f1) w1 = (err, w')"
    by (auto simp: cancel_def split: prod.splits)
  from os_Close_evolves [OF c] have n: "fname f1 = fname f" by simp
  from os_Close_calls [OF c] obtain e1 where
    e1: "trace w1 = trace w @ e1" "set (map fst e1) \<subseteq> {Close (fname f)}" by blast
  from os_Remove_calls [OF rm] n e1 have "trace w' = trace w @ (e1 @ [(Remove (fname f), err)])"
    by simp
  moreover from e1 have "set (map fst (e1 @ [(Remove (fname f), err)])) \<subseteq> {Close (fname f), Remove (fname f)}"
    by auto
  ultimately show ?thesis
    by (intro exI [of _ "e1 @ [(Remove (fname f), err)]"]) simp
qed

lemma calls_since_append: "trace w' = trace w @ evs \<Longrightarrow> calls_since w w' = map fst evs"
  by (simp add: calls_since_def)


text \<open>
  C2, as the code has it. The target exists and is newer than the handle. When the
  \<^verbatim>\<open>os.Stat\<close> of the target is refused, \<open>commit\<close> returns that error, not the retry
  error. When the removal of the temporary file is refused, \<open>commit\<close> returns the retry
  error and the temporary file is still there.
\<close>

theorem commit_retry_counterexample:
  "files overtaken_unstatable_world ''data/jar'' = Some (JSONObject disk_doc, 2) \<and>
   ctime written_handle = 1 \<and>
   fst (commit written_handle overtaken_unstatable_world) = Some (ErrOS EACCES) \<and>
   (case commit written_handle overtaken_stuck_world of (err, a', w') \<Rightarrow>
      err = Some ErrAtomicFileRetry \<and>
      files w' ''data/jar000000000'' = Some (JSONObject [], 1) \<and>
      trace w' = [(Sync ''data/jar000000000'', None), (Close ''data/jar000000000'', None),
                  (Stat ''data/jar'', None), (Remove ''data/jar000000000'', Some (ErrOS EIO))])"
  by (simp add: written_handle_def overtaken_unstatable_world_def overtaken_stuck_world_def
      disk_doc_def af_defs os_defs)


text \<open>
  C2, amended. On a handle that holds a temporary file, of another name than the target,
  \<open>commit\<close> returns the retry error exactly when \<^verbatim>\<open>os.Stat\<close> reports a modification
  time of the target that is strictly after the creation time of the handle, which is when
  the call did not fail and the target then exists with such a time. In that case the
  calls \<open>commit\<close> makes are the flush and the close of the temporary file, the stat of
  the target and the removal of the temporary file by \<open>cancel\<close>: there is no rename, the
  target holds what it held unless a concurrent writer wrote it, and the temporary file is
  gone unless its removal was refused.
\<close>

theorem commit_retry_conflict:
  assumes f: "afile a = Some f" and ne: "fname f \<noteq> filename a"
    and sy: "os_Sync f w = (err0, w1)" and cl: "os_Close f w1 = (closeErr, f1, w2)"
    and st: "os_Stat (filename a) w2 = (fi, err2, w3)"
    and c: "commit a w = (err, a', w')"
  shows "((err = Some ErrAtomicFileRetry) = (\<exists>t. fi = Some t \<and> ctime a < t)) \<and>
         ((\<exists>t. fi = Some t \<and> ctime a < t) =
            (err2 = None \<and> (\<exists>c t. files w3 (filename a) = Some (c, t) \<and> ctime a < t))) \<and>
         (err = Some ErrAtomicFileRetry \<longrightarrow>
            set (calls_since w w') \<subseteq>
              {Sync (fname f), Close (fname f), Stat (filename a), Remove (fname f)} \<and>
            Remove (fname f) \<in> set (calls_since w w') \<and>
            (\<exists>x. cancel (a\<lparr>afile := Some f1\<rparr>) w3 = (x, a', w')) \<and>
            (unwritten w (filename a) \<longrightarrow> files w' (filename a) = files w (filename a)) \<and>
            (\<not> removal_failed w' \<longrightarrow> files w' (fname f) = None))"
proof -
  note u = commit_unfold [OF f sy cl st]
  note sr = os_Stat_result [OF st]
  from os_Close_evolves [OF cl] have n: "fname f1 = fname f" by simp
  have iff: "(err = Some ErrAtomicFileRetry) = (\<exists>t. fi = Some t \<and> ctime a < t)"
  proof (cases "\<exists>t. fi = Some t \<and> ctime a < t")
    case True
    with sr(3) have "err2 = None" by auto
    with u c True show ?thesis by (auto split: prod.splits)
  next
    case False
    show ?thesis
    proof (cases "err2 = None \<or> err2 = Some ErrNotExist")
      case True
      obtain r w4 where rn: "os_Rename (fname f1) (filename a) w3 = (r, w4)"
        by (cases "os_Rename (fname f1) (filename a) w3")
      with u c True False os_Rename_not_retry [OF rn] show ?thesis
        by (cases r) (auto split: prod.splits)
    next
      case False': False
      with u c sr(2) False show ?thesis by (auto split: prod.splits)
    qed
  qed
  have seen: "(\<exists>t. fi = Some t \<and> ctime a < t) =
            (err2 = None \<and> (\<exists>c t. files w3 (filename a) = Some (c, t) \<and> ctime a < t))"
    using sr(3) by auto
  have rest: "set (calls_since w w') \<subseteq>
              {Sync (fname f), Close (fname f), Stat (filename a), Remove (fname f)} \<and>
            Remove (fname f) \<in> set (calls_since w w') \<and>
            (\<exists>x. cancel (a\<lparr>afile := Some f1\<rparr>) w3 = (x, a', w')) \<and>
            (unwritten w (filename a) \<longrightarrow> files w' (filename a) = files w (filename a)) \<and>
            (\<not> removal_failed w' \<longrightarrow> files w' (fname f) = None)"
    if "err = Some ErrAtomicFileRetry"
  proof -
    from that iff have conflict: "\<exists>t. fi = Some t \<and> ctime a < t" by simp
    with sr(3) have "err2 = None" by auto
    with u c conflict obtain x where k: "cancel (a\<lparr>afile := Some f1\<rparr>) w3 = (x, a', w')"
      by (auto split: prod.splits)
    from os_Sync_calls [OF sy] obtain e1 where
      e1: "trace w1 = trace w @ e1" "set (map fst e1) \<subseteq> {Sync (fname f)}" by blast
    from os_Close_calls [OF cl] obtain e2 where
      e2: "trace w2 = trace w1 @ e2" "set (map fst e2) \<subseteq> {Close (fname f)}" by blast
    from cancel_calls [OF k, of f1] n obtain e4 where
      e4: "trace w' = trace w3 @ e4" "set (map fst e4) \<subseteq> {Close (fname f), Remove (fname f)}"
        "Remove (fname f) \<in> set (map fst e4)" by auto
    from e1 e2 sr(1) e4 have "trace w' = trace w @ (e1 @ e2 @ [(Stat (filename a), err2)] @ e4)"
      by simp
    from calls_since_append [OF this] e1 e2 e4
    have calls: "set (calls_since w w') \<subseteq>
              {Sync (fname f), Close (fname f), Stat (filename a), Remove (fname f)}"
      and rem: "Remove (fname f) \<in> set (calls_since w w')"
      by auto
    have e3: "evolves {} {} w w3"
      using evolves_trans [OF evolves_trans [OF os_Sync_evolves [OF sy]
            conjunct1 [OF os_Close_evolves [OF cl]]] os_Stat_evolves [OF st]] by simp
    from cancel_evolves [OF k, of f1] n have e35: "evolves {} {fname f} w3 w'"
      and gone: "\<not> removal_failed w' \<Longrightarrow> files w' (fname f) = None" by simp_all
    from evolves_trans [OF e3 e35] have "evolves {} {fname f} w w'" by simp
    from evolves_files [OF this, of "filename a"] ne
    have "unwritten w (filename a) \<longrightarrow> files w' (filename a) = files w (filename a)"
      by auto
    with calls rem k gone show ?thesis by blast
  qed
  from iff seen rest show ?thesis by blast
qed

theorem commit_retry_conflict_witness:
  "\<exists>f err0 w1 closeErr f1 w2 fi err2 w3 err a' w'.
     afile written_handle = Some f \<and> fname f \<noteq> filename written_handle \<and>
     os_Sync f overtaken_world = (err0, w1) \<and> os_Close f w1 = (closeErr, f1, w2) \<and>
     os_Stat (filename written_handle) w2 = (fi, err2, w3) \<and>
     commit written_handle overtaken_world = (err, a', w') \<and>
     err = Some ErrAtomicFileRetry \<and> fi = Some 2 \<and> ctime written_handle < 2 \<and>
     unwritten overtaken_world (filename written_handle) \<and> \<not> removal_failed w' \<and>
     Remove (fname f) \<in> set (calls_since overtaken_world w') \<and>
     files w' (filename written_handle) = files overtaken_world (filename written_handle) \<and>
     files w' (fname f) = None"
proof -
  have "\<exists>f err0 w1 closeErr f1 w2 fi err2 w3 err a' w'.
     afile written_handle = Some f \<and> fname f \<noteq> filename written_handle \<and>
     os_Sync f overtaken_world = (err0, w1) \<and> os_Close f w1 = (closeErr, f1, w2) \<and>
     os_Stat (filename written_handle) w2 = (fi, err2, w3) \<and>
     commit written_handle overtaken_world = (err, a', w') \<and>
     fi = Some 2 \<and> ctime written_handle < 2 \<and>
     unwritten overtaken_world (filename written_handle) \<and> \<not> removal_failed w'"
    by (simp add: written_handle_def overtaken_world_def disk_doc_def unwritten_def
        removal_failed_def af_defs os_defs)
  then obtain f err0 w1 closeErr f1 w2 fi err2 w3 err a' w' where
    h: "afile written_handle = Some f" "fname f \<noteq> filename written_handle"
      "os_Sync f overtaken_world = (err0, w1)" "os_Close f w1 = (closeErr, f1, w2)"
      "os_Stat (filename written_handle) w2 = (fi, err2, w3)"
      "commit written_handle overtaken_world = (err, a', w')"
    and o: "fi = Some 2" "ctime written_handle < 2"
      "unwritten overtaken_world (filename written_handle)" "\<not> removal_failed w'"
    by blast
  from commit_retry_conflict [OF h] o
  have "err = Some ErrAtomicFileRetry \<and>
        Remove (fname f) \<in> set (calls_since overtaken_world w') \<and>
        files w' (filename written_handle) = files overtaken_world (filename written_handle) \<and>
        files w' (fname f) = None"
    by blast
  with h o show ?thesis
    by blast
qed


end
